theory Spec2Isabelle
  imports Main "HOL-Library.AList" "HOL-Library.Multiset" "HOL-Library.Char_ord"
    "HOL-Library.List_Lexorder" "HOL-Library.Product_Lexorder"
begin

section \<open>Data model\<close>

text \<open>
  The generic repository of \<^verbatim>\<open>core/database/repositories.py\<close> is a thin layer over an
  ORM session. Its own code (the filter construction, the truthiness guards, the
  attribute loop of update and upsert, the try/except discipline) is embedded function by
  function. The session it talks to is an external collaborator; it is modelled as one
  table seen through one open transaction:
  \<^item> a value of a field is a Python scalar or a list (\<open>VList\<close>, the only type the
    repository tests with \<^verbatim>\<open>isinstance(value, list)\<close>);
  \<^item> a Python dict is an association list in insertion order; \<open>AList.update\<close> is
    assignment to a key (overwrite in place, or append);
  \<^item> an entity (a row) is the association list of its column values; an entity a method
    returns is that row as the method left it (a value, not a reference that later calls
    change).

  What the store does beyond this is left out: the attributes of a class are its columns
  (methods and relationships are not attributes here), column types other than those of
  the three inherited columns are not checked, a comparison with NULL inside a membership
  test follows plain equality, and savepoints are not modelled (a rollback discards
  everything since the last commit).
\<close>

datatype val = VNone | VInt int | VStr string | VBool bool | VTime nat | VList "val list"

type_synonym pydict = "(string \<times> val) list"

type_synonym entity = "(string \<times> val) list"

datatype error = DatabaseError

text \<open>
  The mapped class: the three columns every model inherits from \<^verbatim>\<open>BaseModel\<close>
  (\<^verbatim>\<open>id\<close>, \<^verbatim>\<open>created_at\<close>, \<^verbatim>\<open>updated_at\<close>) and the columns a subclass declares, with
  their \<^verbatim>\<open>default=\<close>, \<^verbatim>\<open>nullable=False\<close> and \<^verbatim>\<open>unique=True\<close> options.
\<close>

record model_class =
  mc_columns :: "string list"
  mc_defaults :: pydict
  mc_required :: "string list"
  mc_unique :: "string list"

definition attrs :: "model_class \<Rightarrow> string list" where
  "attrs mc = [''id'', ''created_at'', ''updated_at''] @ mc_columns mc"

definition hasattr :: "model_class \<Rightarrow> string \<Rightarrow> bool" where
  "hasattr mc k = (k \<in> set (attrs mc))"

definition getattr :: "entity \<Rightarrow> string \<Rightarrow> val option" where
  "getattr e k = map_of e k"

definition setattr :: "entity \<Rightarrow> string \<Rightarrow> val \<Rightarrow> entity" where
  "setattr e k v = AList.update k v e"

text \<open>
  The unit of work. \<open>table\<close> is the table as the open transaction sees it, in the
  store's default order (insertion order; an update keeps the row's place); \<open>durable\<close> is
  what the last commit left, so that \<open>rollback\<close> restores it. \<open>online\<close> says whether the
  store can be reached: every query and every flush raises when it cannot. \<open>next_id\<close> is
  the autoincrement sequence and \<open>clock\<close> what \<^verbatim>\<open>datetime.utcnow()\<close> returns.
\<close>

record session =
  online :: bool
  durable :: "entity list"
  table :: "entity list"
  next_id :: int
  clock :: nat

definition rollback :: "session \<Rightarrow> session" where
  "rollback s = s\<lparr>table := durable s\<rparr>"

definition commit :: "session \<Rightarrow> session \<times> (error + unit)" where
  "commit s = (if online s then (s\<lparr>durable := table s\<rparr>, Inr ())
               else (rollback s, Inl DatabaseError))"

subsection \<open>What a flush accepts\<close>

text \<open>
  A flush sends the pending INSERT and UPDATE statements; the store rejects them when a
  row breaks a constraint declared on the class: \<^verbatim>\<open>id\<close> is an integer primary key,
  the two timestamps are non-null datetimes, a \<^verbatim>\<open>nullable=False\<close> column holds no NULL,
  and a \<^verbatim>\<open>unique=True\<close> column (and the primary key) holds no value twice (NULLs
  apart).
\<close>

definition is_int :: "val option \<Rightarrow> bool" where
  "is_int v = (case v of Some (VInt i) \<Rightarrow> True | _ \<Rightarrow> False)"

definition is_time :: "val option \<Rightarrow> bool" where
  "is_time v = (case v of Some (VTime t) \<Rightarrow> True | _ \<Rightarrow> False)"

definition is_null :: "val option \<Rightarrow> bool" where
  "is_null v = (case v of None \<Rightarrow> True | Some VNone \<Rightarrow> True | _ \<Rightarrow> False)"

definition row_ok :: "model_class \<Rightarrow> entity \<Rightarrow> bool" where
  "row_ok mc e =
     (is_int (getattr e ''id'') \<and> is_time (getattr e ''created_at'') \<and>
      is_time (getattr e ''updated_at'') \<and>
      list_all (\<lambda>c. \<not> is_null (getattr e c)) (mc_required mc))"

definition unique_ok :: "entity list \<Rightarrow> string \<Rightarrow> bool" where
  "unique_ok rows c =
     distinct (filter (\<lambda>v. \<not> is_null v) (map (\<lambda>e. getattr e c) rows))"

definition consistent :: "model_class \<Rightarrow> entity list \<Rightarrow> bool" where
  "consistent mc rows =
     (list_all (row_ok mc) rows \<and> list_all (unique_ok rows) (''id'' # mc_unique mc))"

definition flush_ok :: "model_class \<Rightarrow> session \<Rightarrow> bool" where
  "flush_ok mc s = (online s \<and> consistent mc (table s))"

subsection \<open>Constructing and adding a new object\<close>

text \<open>
  \<^verbatim>\<open>model_class(**data)\<close> raises on a keyword that is not an attribute of the class.
  \<^verbatim>\<open>session.add\<close> stages the object; \<open>add\<close> appends at once the row the object
  becomes, and the flush that follows accepts or rejects the table (this code runs no query
  between the two). The row takes each column from the object when the object sets it,
  and otherwise from the sequence (\<^verbatim>\<open>id\<close>), the clock (the timestamps), the column
  default, or NULL. A value the object sets is written as it is.
\<close>

definition construct :: "model_class \<Rightarrow> pydict \<Rightarrow> pydict option" where
  "construct mc data = (if list_all (\<lambda>(k, v). hasattr mc k) data then Some data else None)"

definition column_value :: "model_class \<Rightarrow> session \<Rightarrow> pydict \<Rightarrow> string \<Rightarrow> val" where
  "column_value mc s obj c =
     (case map_of obj c of
        Some v \<Rightarrow> v
      | None \<Rightarrow>
          if c = ''id'' then VInt (next_id s)
          else if c = ''created_at'' \<or> c = ''updated_at'' then VTime (clock s)
          else (case map_of (mc_defaults mc) c of Some d \<Rightarrow> d | None \<Rightarrow> VNone))"

definition new_row :: "model_class \<Rightarrow> session \<Rightarrow> pydict \<Rightarrow> entity" where
  "new_row mc s obj = map (\<lambda>c. (c, column_value mc s obj c)) (attrs mc)"

definition add :: "model_class \<Rightarrow> session \<Rightarrow> pydict \<Rightarrow> session \<times> entity" where
  "add mc s obj =
     (let e = new_row mc s obj
      in (s\<lparr>table := table s @ [e],
            next_id := (if map_of obj ''id'' = None then next_id s + 1 else next_id s)\<rparr>, e))"

text \<open>
  A loaded entity is addressed by its primary key: the UPDATE and DELETE a flush issues
  for it carry \<^verbatim>\<open>WHERE id = ...\<close>.
\<close>

definition same_pk :: "entity \<Rightarrow> entity \<Rightarrow> bool" where
  "same_pk e r = (getattr r ''id'' = getattr e ''id'')"

definition sql_update :: "entity \<Rightarrow> entity \<Rightarrow> entity list \<Rightarrow> entity list" where
  "sql_update e e' rows = map (\<lambda>r. if same_pk e r then e' else r) rows"

definition sql_delete :: "entity \<Rightarrow> entity list \<Rightarrow> entity list" where
  "sql_delete e rows = filter (\<lambda>r. \<not> same_pk e r) rows"

section \<open>The repository\<close>

subsection \<open>Reading\<close>

definition has_id :: "int \<Rightarrow> entity \<Rightarrow> bool" where
  "has_id i e = (getattr e ''id'' = Some (VInt i))"

definition get_by_id :: "session \<Rightarrow> int \<Rightarrow> error + entity option" where
  "get_by_id s entity_id =
     (if online s then Inr (find (has_id entity_id) (table s)) else Inl DatabaseError)"

definition get_all :: "session \<Rightarrow> error + entity list" where
  "get_all s = (if online s then Inr (table s) else Inl DatabaseError)"










subsection \<open>Writing\<close>

text \<open>
  Every mutating method wraps its body in \<^verbatim>\<open>try\<close> and, on any exception, calls
  \<^verbatim>\<open>session.rollback()\<close> and raises \<^verbatim>\<open>DatabaseError\<close>. A result is the session after
  the call together with the error or the returned value.
\<close>






text \<open>
  The loop \<^verbatim>\<open>for key, value in data.items(): if hasattr(entity, key): setattr(...)\<close>
  shared by update and upsert, and the refresh of \<^verbatim>\<open>updated_at\<close> that follows it
  (every mapped class derives from \<^verbatim>\<open>BaseModel\<close>).
\<close>

fun set_fields :: "model_class \<Rightarrow> pydict \<Rightarrow> entity \<Rightarrow> entity" where
  "set_fields mc [] e = e"
| "set_fields mc ((k, v) # rest) e =
     set_fields mc rest (if hasattr mc k then setattr e k v else e)"

definition touch :: "session \<Rightarrow> entity \<Rightarrow> entity" where
  "touch s e = setattr e ''updated_at'' (VTime (clock s))"

definition write_back ::
  "model_class \<Rightarrow> session \<Rightarrow> entity \<Rightarrow> entity \<Rightarrow> session \<times> (error + entity)" where
  "write_back mc s e e' =
     (let s1 = s\<lparr>table := sql_update e e' (table s)\<rparr>
      in if flush_ok mc s1 then (s1, Inr e') else (rollback s1, Inl DatabaseError))"

definition update ::
  "model_class \<Rightarrow> session \<Rightarrow> int \<Rightarrow> pydict \<Rightarrow> session \<times> (error + entity option)" where
  "update mc s entity_id data =
     (case get_by_id s entity_id of
        Inl err \<Rightarrow> (rollback s, Inl DatabaseError)
      | Inr None \<Rightarrow> (s, Inr None)
      | Inr (Some entity) \<Rightarrow>
          (case write_back mc s entity (touch s (set_fields mc data entity)) of
             (s1, Inl err) \<Rightarrow> (s1, Inl DatabaseError)
           | (s1, Inr e') \<Rightarrow> (s1, Inr (Some e'))))"

definition delete :: "session \<Rightarrow> int \<Rightarrow> session \<times> (error + bool)" where
  "delete s entity_id =
     (case get_by_id s entity_id of
        Inl err \<Rightarrow> (rollback s, Inl DatabaseError)
      | Inr None \<Rightarrow> (s, Inr False)
      | Inr (Some entity) \<Rightarrow> (s\<lparr>table := sql_delete entity (table s)\<rparr>, Inr True))"


text \<open>
  The dict comprehension
  \<^verbatim>\<open>{field: data[field] for field in unique_fields if field in data}\<close>.
\<close>

fun unique_filter :: "string list \<Rightarrow> pydict \<Rightarrow> pydict \<Rightarrow> pydict" where
  "unique_filter [] data acc = acc"
| "unique_filter (field # unique_fields) data acc =
     unique_filter unique_fields data
       (case map_of data field of None \<Rightarrow> acc | Some v \<Rightarrow> AList.update field v acc)"




subsection \<open>Counting matches for a batch of upserts\<close>




section \<open>A mapped class and sessions of the repository's own models\<close>

text \<open>
  \<^verbatim>\<open>Configuracao\<close> of \<^verbatim>\<open>core/models/base_models.py\<close>: \<^verbatim>\<open>chave\<close> is unique and not
  nullable; \<^verbatim>\<open>tipo\<close>, \<^verbatim>\<open>nivel\<close> and \<^verbatim>\<open>editavel\<close> are not nullable and have defaults.
\<close>

definition configuracao :: model_class where
  "configuracao =
     \<lparr>mc_columns = [''chave'', ''valor'', ''descricao'', ''tipo'', ''grupo'', ''nivel'',
                     ''editavel''],
      mc_defaults = [(''tipo'', VStr ''string''), (''nivel'', VStr ''sistema''),
                     (''editavel'', VBool True)],
      mc_required = [''chave'', ''tipo'', ''nivel'', ''editavel''],
      mc_unique = [''chave'']\<rparr>"

definition cfg_row :: "int \<Rightarrow> string \<Rightarrow> val \<Rightarrow> string \<Rightarrow> nat \<Rightarrow> entity" where
  "cfg_row i chave valor grupo t =
     [(''id'', VInt i), (''created_at'', VTime 100), (''updated_at'', VTime t),
      (''chave'', VStr chave), (''valor'', valor), (''descricao'', VNone),
      (''tipo'', VStr ''string''), (''grupo'', VStr grupo), (''nivel'', VStr ''sistema''),
      (''editavel'', VBool True)]"

definition store :: "entity list \<Rightarrow> int \<Rightarrow> nat \<Rightarrow> session" where
  "store rows n t = \<lparr>online = True, durable = [], table = rows, next_id = n, clock = t\<rparr>"

definition cfg_tz :: entity where
  "cfg_tz = cfg_row 1 ''tz'' (VStr ''UTC'') ''core'' 100"

definition cfg_lang :: entity where
  "cfg_lang = cfg_row 2 ''lang'' (VStr ''pt'') ''ui'' 100"

definition cfg_app :: entity where
  "cfg_app = cfg_row 3 ''app'' VNone ''core'' 100"

section \<open>Facts about the store\<close>

lemmas model_defs =
  configuracao_def cfg_row_def store_def cfg_tz_def cfg_lang_def cfg_app_def

lemmas store_defs =
  hasattr_def attrs_def getattr_def setattr_def has_id_def same_pk_def is_int_def
  is_time_def is_null_def row_ok_def unique_ok_def consistent_def flush_ok_def
  construct_def column_value_def new_row_def add_def sql_update_def sql_delete_def
  rollback_def Let_def




lemma find_None_iff_all: "find P xs = None \<longleftrightarrow> (\<forall>x\<in>set xs. \<not> P x)"
  by (induction xs) auto


subsection \<open>Attributes\<close>





subsection \<open>The primary key\<close>






subsection \<open>Outcomes of the single operations\<close>










subsection \<open>Filters\<close>












subsection \<open>Upsert\<close>


lemma distinct_unique_filter:
  "distinct (map fst acc) \<Longrightarrow> distinct (map fst (unique_filter uf data acc))"
  by (induction uf arbitrary: acc) (auto simp: distinct_update split: option.splits)









subsection \<open>Batches\<close>








section \<open>Upsert\<close>



section \<open>Failure and rollback\<close>



section \<open>Bulk upsert\<close>




section \<open>Update\<close>



section \<open>Filtering, ordering and paging\<close>




section \<open>Create and look up\<close>



section \<open>Delete many\<close>



section \<open>Absence is not an error\<close>

text \<open>
  Claim C8. For an identifier no stored entity has, \<open>get_by_id\<close> returns nothing,
  \<open>update\<close> returns nothing and \<open>delete\<close> returns false, each leaving the session as it
  was; the only way any of them raises is that the store cannot be reached. For any
  identifier, \<open>get_by_id\<close> raises exactly when the store cannot be reached.
\<close>

theorem absent_is_no_error:
  assumes "\<forall>e\<in>set (table s). \<not> has_id i e"
  shows "get_by_id s i = (if online s then Inr None else Inl DatabaseError) \<and>
         update mc s i data =
           (if online s then (s, Inr None) else (rollback s, Inl DatabaseError)) \<and>
         delete s i =
           (if online s then (s, Inr False) else (rollback s, Inl DatabaseError)) \<and>
         ((\<exists>err. get_by_id s j = Inl err) \<longleftrightarrow> \<not> online s)"
proof -
  from assms have "find (has_id i) (table s) = None" by (simp add: find_None_iff_all)
  then show ?thesis by (simp add: get_by_id_def update_def delete_def)
qed

theorem absent_is_no_error_witness:
  "get_by_id (store [cfg_tz, cfg_lang] 3 100) 7 = Inr None \<and>
   update configuracao (store [cfg_tz, cfg_lang] 3 100) 7 [(''valor'', VStr ''x'')]
     = (store [cfg_tz, cfg_lang] 3 100, Inr None) \<and>
   delete (store [cfg_tz, cfg_lang] 3 100) 7 = (store [cfg_tz, cfg_lang] 3 100, Inr False)"
proof -
  have h: "\<forall>e\<in>set (table (store [cfg_tz, cfg_lang] 3 100)). \<not> has_id 7 e"
    by (simp add: model_defs store_defs)
  have on: "online (store [cfg_tz, cfg_lang] 3 100)"
    by (simp add: store_def)
  from absent_is_no_error [OF h, of configuracao "[(''valor'', VStr ''x'')]"] on
  show ?thesis by simp
qed

section \<open>Delete\<close>



section \<open>Upsert with no unique field in the data\<close>



end
